theory Spec2Isabelle
  imports Main "HOL-Library.Sublist"
begin

section \<open>Python values, errors and the object store\<close>

text \<open>
  The module \<^verbatim>\<open>official/transformer/v2/misc.py\<close> resolves a named hyperparameter set
  and declares the command-line flags of the transformer driver. Its values are Python
  objects: \<open>None\<close>, strings, integers and booleans.
\<close>

datatype pyval = PyNone | PyStr string | PyInt int | PyBool bool

datatype error =
    ValueError string
  | KeyError string
  | DuplicateFlagError string
  | IllegalFlagValueError string
  | ValidationError string

text \<open>Python's \<open>x is None\<close>, \<open>bool(x)\<close> and \<open>x == y\<close> on these values.\<close>

fun is_None :: "pyval \<Rightarrow> bool" where
  "is_None PyNone = True"
| "is_None _ = False"

fun truthy :: "pyval \<Rightarrow> bool" where
  "truthy PyNone = False"
| "truthy (PyStr s) = (s \<noteq> [])"
| "truthy (PyInt i) = (i \<noteq> 0)"
| "truthy (PyBool b) = b"

fun py_eq :: "pyval \<Rightarrow> pyval \<Rightarrow> bool" where
  "py_eq PyNone PyNone = True"
| "py_eq (PyStr a) (PyStr b) = (a = b)"
| "py_eq (PyInt a) (PyInt b) = (a = b)"
| "py_eq (PyBool a) (PyBool b) = (a = b)"
| "py_eq (PyBool a) (PyInt b) = ((if a then 1 else 0) = b)"
| "py_eq (PyInt a) (PyBool b) = (a = (if b then 1 else 0))"
| "py_eq _ _ = False"

text \<open>\<open>str(n)\<close> for a Python integer: decimal digits, with a leading minus sign.\<close>

definition digit_char :: "nat \<Rightarrow> char" where
  "digit_char d = ''0123456789'' ! d"

fun str_nat :: "nat \<Rightarrow> string" where
  "str_nat n =
     (if n < 10 then [digit_char n] else str_nat (n div 10) @ [digit_char (n mod 10)])"

definition str_int :: "int \<Rightarrow> string" where
  "str_int i = (if i < 0 then CHR ''-'' # str_nat (nat (- i)) else str_nat (nat i))"

text \<open>
  Hyperparameter records are mutable dictionaries, and \<open>get_model_params\<close> hands out
  copies of shared ones, so the model keeps an explicit store: every dictionary object
  lives at an address, \<open>next_free\<close> is the allocation pointer, and the addresses below
  it are the objects that exist.
\<close>

type_synonym addr = nat

type_synonym 'v dict = "string \<rightharpoonup> 'v"

record 'v store =
  cells :: "addr \<Rightarrow> 'v dict"
  next_free :: addr

text \<open>\<open>d.copy()\<close>: a new dictionary object with the entries of the one at address \<open>a\<close>.\<close>

definition dict_copy :: "addr \<Rightarrow> 'v store \<Rightarrow> addr \<times> 'v store" where
  "dict_copy a s =
     (next_free s,
      s\<lparr>cells := (cells s)(next_free s := cells s a), next_free := Suc (next_free s)\<rparr>)"

text \<open>
  An in-place mutation of the dictionary object at address \<open>a\<close>: \<open>f\<close> maps its old
  entries to its new ones. \<open>d[k] = v\<close> is the instance \<open>dict_setitem\<close>; \<open>del d[k]\<close>,
  \<open>d.update(...)\<close> and \<open>d.clear()\<close> are others.
\<close>

definition dict_mutate :: "addr \<Rightarrow> ('v dict \<Rightarrow> 'v dict) \<Rightarrow> 'v store \<Rightarrow> 'v store" where
  "dict_mutate a f s = s\<lparr>cells := (cells s)(a := f (cells s a))\<rparr>"

definition dict_setitem :: "addr \<Rightarrow> string \<Rightarrow> 'v \<Rightarrow> 'v store \<Rightarrow> 'v store" where
  "dict_setitem a k v s = dict_mutate a (\<lambda>d. d(k \<mapsto> v)) s"

section \<open>The parameter table and \<open>get_model_params\<close>\<close>

text \<open>
  The five records of the module \<open>model_params\<close> are not part of this file; the model
  takes the addresses of the five objects as a parameter.
\<close>

record model_params =
  TINY_PARAMS :: addr
  BASE_PARAMS :: addr
  BIG_PARAMS :: addr
  BIG_MULTI_GPU_PARAMS :: addr
  BASE_MULTI_GPU_PARAMS :: addr

definition PARAMS_MAP :: "model_params \<Rightarrow> (string \<times> addr) list" where
  "PARAMS_MAP mp =
     [(''tiny'', TINY_PARAMS mp), (''base'', BASE_PARAMS mp), (''big'', BIG_PARAMS mp)]"

text \<open>The message \<^verbatim>\<open>"Not valid params: param_set={} num_gpus={}".format(param_set, num_gpus)\<close>.\<close>

definition not_valid_params :: "string \<Rightarrow> int \<Rightarrow> string" where
  "not_valid_params param_set num_gpus =
     ''Not valid params: param_set='' @ param_set @ '' num_gpus='' @ str_int num_gpus"

definition get_model_params ::
  "model_params \<Rightarrow> string \<Rightarrow> int \<Rightarrow> 'v store \<Rightarrow> error + (addr \<times> 'v store)" where
  "get_model_params mp param_set num_gpus s =
     (if num_gpus > 1 then
        (if param_set = ''big'' then Inr (dict_copy (BIG_MULTI_GPU_PARAMS mp) s)
         else if param_set = ''base'' then Inr (dict_copy (BASE_MULTI_GPU_PARAMS mp) s)
         else Inl (ValueError (not_valid_params param_set num_gpus)))
      else
        (case map_of (PARAMS_MAP mp) param_set of
           None \<Rightarrow> Inl (KeyError param_set)
         | Some a \<Rightarrow> Inr (dict_copy a s)))"

text \<open>The objects of the parameter table exist in the store.\<close>

definition table_allocated :: "model_params \<Rightarrow> 'v store \<Rightarrow> bool" where
  "table_allocated mp s =
     (TINY_PARAMS mp < next_free s \<and> BASE_PARAMS mp < next_free s \<and>
      BIG_PARAMS mp < next_free s \<and> BIG_MULTI_GPU_PARAMS mp < next_free s \<and>
      BASE_MULTI_GPU_PARAMS mp < next_free s)"

definition example_params :: model_params where
  "example_params =
     \<lparr>TINY_PARAMS = 0, BASE_PARAMS = 1, BIG_PARAMS = 2,
      BIG_MULTI_GPU_PARAMS = 3, BASE_MULTI_GPU_PARAMS = 4\<rparr>"

definition example_store :: "pyval store" where
  "example_store =
     \<lparr>cells = (\<lambda>_. Map.empty)
        (0 := [''hidden_size'' \<mapsto> PyInt 32],
         1 := [''hidden_size'' \<mapsto> PyInt 512],
         2 := [''hidden_size'' \<mapsto> PyInt 1024],
         3 := [''hidden_size'' \<mapsto> PyInt 1024, ''learning_rate_warmup_steps'' \<mapsto> PyInt 8000],
         4 := [''hidden_size'' \<mapsto> PyInt 512, ''learning_rate_warmup_steps'' \<mapsto> PyInt 8000]),
      next_free = 5\<rparr>"

section \<open>Flag declarations\<close>

text \<open>
  A flag of the command-line library has a name, an optional short name, a kind
  (\<open>DEFINE_enum\<close>, \<open>DEFINE_bool\<close>, \<open>DEFINE_integer\<close>, \<open>DEFINE_string\<close>) and a default.
  The registry is the list of the flags declared so far; names and short names share
  one namespace, and declaring a name twice raises \<open>DuplicateFlagError\<close>.
\<close>

datatype kind = EnumFlag "string list" | BoolFlag | IntegerFlag | StringFlag

record flag =
  name :: string
  short_name :: "string option"
  kind :: kind
  default_value :: pyval

definition registered_names :: "flag list \<Rightarrow> string list" where
  "registered_names r = map name r @ List.map_filter short_name r"

definition DEFINE_flag :: "flag \<Rightarrow> flag list \<Rightarrow> error + flag list" where
  "DEFINE_flag f r =
     (if name f \<in> set (registered_names r) then Inl (DuplicateFlagError (name f))
      else case short_name f of
             None \<Rightarrow> Inr (r @ [f])
           | Some sn \<Rightarrow>
               if sn \<in> set (registered_names r) then Inl (DuplicateFlagError sn)
               else Inr (r @ [f]))"

definition DEFINE_enum ::
  "string \<Rightarrow> string option \<Rightarrow> string \<Rightarrow> string list \<Rightarrow> flag list \<Rightarrow> error + flag list" where
  "DEFINE_enum n sn d enum_values r =
     (if d \<in> set enum_values
      then DEFINE_flag \<lparr>name = n, short_name = sn, kind = EnumFlag enum_values,
                        default_value = PyStr d\<rparr> r
      else Inl (IllegalFlagValueError d))"

definition DEFINE_bool :: "string \<Rightarrow> bool \<Rightarrow> flag list \<Rightarrow> error + flag list" where
  "DEFINE_bool n d r =
     DEFINE_flag \<lparr>name = n, short_name = None, kind = BoolFlag, default_value = PyBool d\<rparr> r"

definition DEFINE_integer ::
  "string \<Rightarrow> string option \<Rightarrow> int \<Rightarrow> flag list \<Rightarrow> error + flag list" where
  "DEFINE_integer n sn d r =
     DEFINE_flag \<lparr>name = n, short_name = sn, kind = IntegerFlag, default_value = PyInt d\<rparr> r"

text \<open>The default of a string flag is a string or \<open>None\<close>.\<close>

definition DEFINE_string ::
  "string \<Rightarrow> string option \<Rightarrow> string option \<Rightarrow> flag list \<Rightarrow> error + flag list" where
  "DEFINE_string n sn d r =
     DEFINE_flag \<lparr>name = n, short_name = sn, kind = StringFlag,
                  default_value = (case d of None \<Rightarrow> PyNone | Some t \<Rightarrow> PyStr t)\<rparr> r"

text \<open>A sequence of declarations stops at the first one that raises.\<close>

fun declare_all ::
  "(flag list \<Rightarrow> error + flag list) list \<Rightarrow> flag list \<Rightarrow> error + flag list" where
  "declare_all [] r = Inr r"
| "declare_all (d # ds) r = (case d r of Inl e \<Rightarrow> Inl e | Inr r' \<Rightarrow> declare_all ds r')"

definition lookup_flag :: "string \<Rightarrow> flag list \<Rightarrow> flag option" where
  "lookup_flag n r = find (\<lambda>f. name f = n) r"

text \<open>
  Modelled from the spec: \<open>flags_core.set_defaults\<close>, which is not part of this file.
  The spec says that it overrides the defaults of the shared base options named in the
  call; the model replaces the default of every declared flag of that name and changes
  nothing else.
\<close>

definition set_default :: "string \<Rightarrow> pyval \<Rightarrow> flag list \<Rightarrow> flag list" where
  "set_default n v r = map (\<lambda>f. if name f = n then f\<lparr>default_value := v\<rparr> else f) r"

fun set_defaults :: "(string \<times> pyval) list \<Rightarrow> flag list \<Rightarrow> flag list" where
  "set_defaults [] r = r"
| "set_defaults ((n, v) # kvs) r = set_defaults kvs (set_default n v r)"

text \<open>
  \<open>define_transformer_flags\<close>. The flags that \<open>flags_core.define_base\<close>,
  \<open>define_performance\<close>, \<open>define_benchmark\<close> and \<open>define_device\<close> declare are
  not part of this file: \<open>core\<close> is the registry after these four calls. The
  enumeration of \<open>param_set\<close> is \<open>PARAMS_MAP.keys()\<close>.
\<close>

definition define_transformer_flags :: "model_params \<Rightarrow> flag list \<Rightarrow> error + flag list" where
  "define_transformer_flags mp core =
     (case declare_all
        [DEFINE_enum ''param_set'' (Some ''mp'') ''big'' (map fst (PARAMS_MAP mp)),
         DEFINE_bool ''static_batch'' False,
         DEFINE_integer ''steps_per_epoch'' (Some ''sbe'') 1000,
         DEFINE_integer ''init_epoch'' (Some ''is'') 0,
         DEFINE_string ''init_weight_path'' (Some ''iwp'') None,
         DEFINE_string ''init_logdir_timestamp'' (Some ''ilt'') None,
         DEFINE_integer ''validation_steps'' (Some ''vs'') 64,
         DEFINE_string ''bleu_source'' (Some ''bls'') None,
         DEFINE_string ''bleu_ref'' (Some ''blr'') None,
         DEFINE_string ''vocab_file'' (Some ''vf'') None,
         DEFINE_string ''mode'' None (Some ''train'')] core of
        Inl e \<Rightarrow> Inl e
      | Inr r \<Rightarrow>
          Inr (set_defaults
                 [(''data_dir'', PyStr ''/tmp/translate_ende''),
                  (''model_dir'', PyStr ''/tmp/transformer_model''),
                  (''batch_size'', PyNone),
                  (''train_epochs'', PyInt 10)] r))"

text \<open>
  Parsing a command-line argument for a flag. A string flag takes the argument as it
  is; an enum flag takes it when it is one of the enumeration. The conversions of the
  library for integer and boolean flags are parameters.
\<close>

definition parse_flag ::
  "(string \<Rightarrow> int option) \<Rightarrow> (string \<Rightarrow> bool option) \<Rightarrow> kind \<Rightarrow> string \<Rightarrow> error + pyval" where
  "parse_flag int_of bool_of k arg =
     (case k of
        StringFlag \<Rightarrow> Inr (PyStr arg)
      | EnumFlag enum_values \<Rightarrow>
          if arg \<in> set enum_values then Inr (PyStr arg) else Inl (IllegalFlagValueError arg)
      | IntegerFlag \<Rightarrow>
          (case int_of arg of None \<Rightarrow> Inl (IllegalFlagValueError arg) | Some i \<Rightarrow> Inr (PyInt i))
      | BoolFlag \<Rightarrow>
          (case bool_of arg of None \<Rightarrow> Inl (IllegalFlagValueError arg) | Some b \<Rightarrow> Inr (PyBool b)))"

section \<open>Flag validators\<close>

text \<open>\<open>d[k]\<close> on a dictionary value raises \<open>KeyError\<close> for a missing key.\<close>

definition getitem :: "pyval dict \<Rightarrow> string \<Rightarrow> error + pyval" where
  "getitem d k = (case d k of None \<Rightarrow> Inl (KeyError k) | Some v \<Rightarrow> Inr v)"

definition check_train_limits :: "pyval dict \<Rightarrow> error + bool" where
  "check_train_limits flag_dict =
     (case getitem flag_dict ''mode'' of
        Inl e \<Rightarrow> Inl e
      | Inr m \<Rightarrow>
          if py_eq m (PyStr ''train'') then
            (case getitem flag_dict ''train_epochs'' of
               Inl e \<Rightarrow> Inl e
             | Inr te \<Rightarrow> Inr (\<not> is_None te))
          else Inr True)"

definition check_bleu_files :: "pyval dict \<Rightarrow> error + bool" where
  "check_bleu_files flags_dict =
     (case getitem flags_dict ''bleu_source'' of
        Inl e \<Rightarrow> Inl e
      | Inr src \<Rightarrow>
          (case getitem flags_dict ''bleu_ref'' of
             Inl e \<Rightarrow> Inl e
           | Inr ref \<Rightarrow> Inr (is_None src = is_None ref)))"

text \<open>\<open>x and y\<close> does not evaluate \<open>y\<close> when \<open>x\<close> is false.\<close>

definition check_bleu_vocab_file :: "pyval dict \<Rightarrow> error + bool" where
  "check_bleu_vocab_file flags_dict =
     (case getitem flags_dict ''bleu_source'' of
        Inl e \<Rightarrow> Inl e
      | Inr src \<Rightarrow>
          if truthy src then
            (case getitem flags_dict ''bleu_ref'' of
               Inl e \<Rightarrow> Inl e
             | Inr ref \<Rightarrow>
                 if truthy ref then
                   (case getitem flags_dict ''vocab_file'' of
                      Inl e \<Rightarrow> Inl e
                    | Inr vf \<Rightarrow> Inr (\<not> is_None vf))
                 else Inr True)
          else Inr True)"

definition check_export_vocab_file :: "pyval dict \<Rightarrow> error + bool" where
  "check_export_vocab_file flags_dict =
     (case getitem flags_dict ''export_dir'' of
        Inl e \<Rightarrow> Inl e
      | Inr ed \<Rightarrow>
          if truthy ed then
            (case getitem flags_dict ''vocab_file'' of
               Inl e \<Rightarrow> Inl e
             | Inr vf \<Rightarrow> Inr (\<not> is_None vf))
          else Inr True)"

text \<open>
  \<open>flags.multi_flags_validator(flag_names, message)\<close> registers a checker. When the
  flags are validated, the library builds the dictionary of the named flags' values,
  calls the checker on it, and raises \<open>ValidationError(message)\<close> when the checker
  returns false.
\<close>

record validator =
  flag_names :: "string list"
  message :: string
  checker :: "pyval dict \<Rightarrow> error + bool"

fun get_input_to_checker :: "string list \<Rightarrow> pyval dict \<Rightarrow> error + pyval dict" where
  "get_input_to_checker [] fv = Inr Map.empty"
| "get_input_to_checker (k # ks) fv =
     (case fv k of
        None \<Rightarrow> Inl (KeyError k)
      | Some v \<Rightarrow>
          (case get_input_to_checker ks fv of
             Inl e \<Rightarrow> Inl e
           | Inr d \<Rightarrow> Inr (d(k \<mapsto> v))))"

definition verify :: "validator \<Rightarrow> pyval dict \<Rightarrow> error + unit" where
  "verify v fv =
     (case get_input_to_checker (flag_names v) fv of
        Inl e \<Rightarrow> Inl e
      | Inr d \<Rightarrow>
          (case checker v d of
             Inl e \<Rightarrow> Inl e
           | Inr ok \<Rightarrow> if ok then Inr () else Inl (ValidationError (message v))))"

definition train_limits_validator :: validator where
  "train_limits_validator =
     \<lparr>flag_names = [''mode'', ''train_epochs''],
      message = ''--train_epochs must be defined in train mode'',
      checker = check_train_limits\<rparr>"

definition bleu_files_validator :: validator where
  "bleu_files_validator =
     \<lparr>flag_names = [''bleu_source'', ''bleu_ref''],
      message = ''Both or neither --bleu_source and --bleu_ref must be defined.'',
      checker = check_bleu_files\<rparr>"

definition bleu_vocab_file_validator :: validator where
  "bleu_vocab_file_validator =
     \<lparr>flag_names = [''bleu_source'', ''bleu_ref'', ''vocab_file''],
      message = ''--vocab_file must be defined if --bleu_source and --bleu_ref are defined.'',
      checker = check_bleu_vocab_file\<rparr>"

definition export_vocab_file_validator :: validator where
  "export_vocab_file_validator =
     \<lparr>flag_names = [''export_dir'', ''vocab_file''],
      message = ''--vocab_file must be defined if --export_dir is set.'',
      checker = check_export_vocab_file\<rparr>"


text \<open>
  The names and short names that \<open>define_transformer_flags\<close> declares. A registry
  that holds none of them accepts all eleven declarations.
\<close>

definition transformer_flag_names :: "string list" where
  "transformer_flag_names =
     [''param_set'', ''mp'', ''static_batch'', ''steps_per_epoch'', ''sbe'', ''init_epoch'', ''is'',
      ''init_weight_path'', ''iwp'', ''init_logdir_timestamp'', ''ilt'', ''validation_steps'', ''vs'',
      ''bleu_source'', ''bls'', ''bleu_ref'', ''blr'', ''vocab_file'', ''vf'', ''mode'']"

text \<open>
  The specification speaks of a flag being set or unset, and of a positive count. A
  flag is unset while its value is \<open>None\<close>; an empty string is a value.
\<close>

definition is_set :: "pyval \<Rightarrow> bool" where
  "is_set v = (v \<noteq> PyNone)"

definition positive_count :: "pyval \<Rightarrow> bool" where
  "positive_count v = (case v of PyInt n \<Rightarrow> 0 < n | _ \<Rightarrow> False)"

text \<open>
  An example registry of shared base flags, and the values of the validated flags when
  every flag holds its default after \<open>define_transformer_flags\<close>.
\<close>

definition example_core :: "flag list" where
  "example_core =
     [\<lparr>name = ''data_dir'', short_name = Some ''dd'', kind = StringFlag,
        default_value = PyStr ''/tmp''\<rparr>,
      \<lparr>name = ''model_dir'', short_name = Some ''md'', kind = StringFlag,
        default_value = PyStr ''/tmp''\<rparr>,
      \<lparr>name = ''train_epochs'', short_name = Some ''te'', kind = IntegerFlag,
        default_value = PyInt 1\<rparr>,
      \<lparr>name = ''batch_size'', short_name = Some ''bs'', kind = IntegerFlag,
        default_value = PyInt 32\<rparr>,
      \<lparr>name = ''export_dir'', short_name = Some ''ed'', kind = StringFlag,
        default_value = PyNone\<rparr>]"

definition default_flag_values :: "pyval dict" where
  "default_flag_values =
     [''mode'' \<mapsto> PyStr ''train'', ''train_epochs'' \<mapsto> PyInt 10,
      ''bleu_source'' \<mapsto> PyNone, ''bleu_ref'' \<mapsto> PyNone,
      ''vocab_file'' \<mapsto> PyNone, ''export_dir'' \<mapsto> PyNone]"

section \<open>Properties of \<open>get_model_params\<close>\<close>

lemma not_valid_params_names_param_set:
  "sublist param_set (not_valid_params param_set num_gpus)"
  unfolding not_valid_params_def by (rule sublist_appendI)

lemma not_valid_params_names_num_gpus:
  "sublist (str_int num_gpus) (not_valid_params param_set num_gpus)"
proof -
  have "suffix (str_int num_gpus) (not_valid_params param_set num_gpus)"
    unfolding not_valid_params_def suffix_def by (metis append.assoc)
  then show ?thesis by (rule suffix_imp_sublist)
qed

text \<open>
  Claim C1. With more than one device, \<open>"big"\<close> and \<open>"base"\<close> return a copy of the
  multi-device record of that name: a new object, at the first free address, holding
  the entries of the stored one, with nothing else in the store changed. Every other
  name, \<open>"tiny"\<close> included, raises a \<open>ValueError\<close> whose message contains the name
  and the decimal device count.
\<close>

theorem get_model_params_multi_gpu:
  assumes "num_gpus > 1"
  shows "(param_set = ''big'' \<longrightarrow>
            get_model_params mp param_set num_gpus s =
              Inr (next_free s,
                   s\<lparr>cells := (cells s)(next_free s := cells s (BIG_MULTI_GPU_PARAMS mp)),
                     next_free := Suc (next_free s)\<rparr>)) \<and>
         (param_set = ''base'' \<longrightarrow>
            get_model_params mp param_set num_gpus s =
              Inr (next_free s,
                   s\<lparr>cells := (cells s)(next_free s := cells s (BASE_MULTI_GPU_PARAMS mp)),
                     next_free := Suc (next_free s)\<rparr>)) \<and>
         (param_set \<noteq> ''big'' \<and> param_set \<noteq> ''base'' \<longrightarrow>
            (\<exists>msg. get_model_params mp param_set num_gpus s = Inl (ValueError msg) \<and>
                   sublist param_set msg \<and> sublist (str_int num_gpus) msg))"
  using assms not_valid_params_names_param_set not_valid_params_names_num_gpus
  by (simp add: get_model_params_def dict_copy_def)

theorem get_model_params_multi_gpu_witness:
  "(1::int) < 2 \<and>
   get_model_params example_params ''big'' 2 example_store =
     Inr (5, example_store\<lparr>cells := (cells example_store)(5 := cells example_store 3),
                          next_free := 6\<rparr>) \<and>
   (\<exists>msg. get_model_params example_params ''tiny'' 2 example_store = Inl (ValueError msg) \<and>
          sublist ''tiny'' msg \<and> sublist ''2'' msg)"
  using get_model_params_multi_gpu [of 2 "''big''" example_params example_store]
        get_model_params_multi_gpu [of 2 "''tiny''" example_params example_store]
  by (simp add: example_params_def example_store_def str_int_def digit_char_def)

text \<open>
  Claim C2. With at most one device, \<open>"tiny"\<close>, \<open>"base"\<close> and \<open>"big"\<close> return a
  copy of the record that \<open>PARAMS_MAP\<close> holds under that name, and every other name
  raises \<open>KeyError\<close>.
\<close>

theorem get_model_params_single_gpu:
  assumes "num_gpus \<le> 1"
  shows "(param_set = ''tiny'' \<longrightarrow>
            get_model_params mp param_set num_gpus s =
              Inr (next_free s,
                   s\<lparr>cells := (cells s)(next_free s := cells s (TINY_PARAMS mp)),
                     next_free := Suc (next_free s)\<rparr>)) \<and>
         (param_set = ''base'' \<longrightarrow>
            get_model_params mp param_set num_gpus s =
              Inr (next_free s,
                   s\<lparr>cells := (cells s)(next_free s := cells s (BASE_PARAMS mp)),
                     next_free := Suc (next_free s)\<rparr>)) \<and>
         (param_set = ''big'' \<longrightarrow>
            get_model_params mp param_set num_gpus s =
              Inr (next_free s,
                   s\<lparr>cells := (cells s)(next_free s := cells s (BIG_PARAMS mp)),
                     next_free := Suc (next_free s)\<rparr>)) \<and>
         (param_set \<notin> {''tiny'', ''base'', ''big''} \<longrightarrow>
            get_model_params mp param_set num_gpus s = Inl (KeyError param_set))"
  using assms
  by (simp add: get_model_params_def dict_copy_def PARAMS_MAP_def)

theorem get_model_params_single_gpu_witness:
  "(1::int) \<le> 1 \<and>
   get_model_params example_params ''tiny'' 1 example_store =
     Inr (5, example_store\<lparr>cells := (cells example_store)(5 := cells example_store 0),
                          next_free := 6\<rparr>) \<and>
   get_model_params example_params ''unknown'' 1 example_store = Inl (KeyError ''unknown'')"
  using get_model_params_single_gpu [of 1 "''tiny''" example_params example_store]
        get_model_params_single_gpu [of 1 "''unknown''" example_params example_store]
  by (simp add: example_params_def example_store_def)

text \<open>
  Which stored record a successful call copies depends on the arguments only, never on
  the store: it is the record that the branch taken names.
\<close>

lemma get_model_params_source:
  assumes "get_model_params mp param_set num_gpus s = Inr (a, s')"
  shows "\<exists>src. src = (if 1 < num_gpus
                      then (if param_set = ''big'' then BIG_MULTI_GPU_PARAMS mp
                            else BASE_MULTI_GPU_PARAMS mp)
                      else (if param_set = ''tiny'' then TINY_PARAMS mp
                            else if param_set = ''base'' then BASE_PARAMS mp
                            else BIG_PARAMS mp)) \<and>
           (\<forall>t::'a store. get_model_params mp param_set num_gpus t = Inr (dict_copy src t))"
  using assms
  by (auto simp: get_model_params_def PARAMS_MAP_def split: if_splits)

text \<open>
  Claim C3. When the five stored records exist in the store, a successful call returns
  a new object \<open>a\<close>, at the first free address, that is none of them and that holds
  the entries of the stored record selected by the arguments; the call changes no
  object that existed before. Whatever in-place mutation \<open>f\<close> the caller then
  applies to \<open>a\<close>, every object that existed before the call, the stored records
  among them, keeps its entries; and a second call with the same arguments succeeds,
  returns another object \<open>a2\<close> with the entries of the same stored record, which are
  the entries the first one had when it was returned, and no mutation \<open>g\<close> of \<open>a2\<close>
  changes the first caller's object.
\<close>

theorem get_model_params_returns_copy:
  assumes alloc: "table_allocated mp s"
      and call: "get_model_params mp param_set num_gpus s = Inr (a, s')"
  shows "a \<notin> {TINY_PARAMS mp, BASE_PARAMS mp, BIG_PARAMS mp,
               BIG_MULTI_GPU_PARAMS mp, BASE_MULTI_GPU_PARAMS mp} \<and>
         a = next_free s \<and> next_free s' = Suc (next_free s) \<and>
         cells s' a =
           cells s (if 1 < num_gpus
                    then (if param_set = ''big'' then BIG_MULTI_GPU_PARAMS mp
                          else BASE_MULTI_GPU_PARAMS mp)
                    else (if param_set = ''tiny'' then TINY_PARAMS mp
                          else if param_set = ''base'' then BASE_PARAMS mp
                          else BIG_PARAMS mp)) \<and>
         (\<forall>b < next_free s. cells s' b = cells s b) \<and>
         (\<forall>b < next_free s. cells (dict_mutate a f s') b = cells s b) \<and>
         (\<exists>a2 s2. get_model_params mp param_set num_gpus (dict_mutate a f s') = Inr (a2, s2) \<and>
                  a2 \<noteq> a \<and> cells s2 a2 = cells s' a \<and>
                  cells s2 a2 =
                    cells s (if 1 < num_gpus
                             then (if param_set = ''big'' then BIG_MULTI_GPU_PARAMS mp
                                   else BASE_MULTI_GPU_PARAMS mp)
                             else (if param_set = ''tiny'' then TINY_PARAMS mp
                                   else if param_set = ''base'' then BASE_PARAMS mp
                                   else BIG_PARAMS mp)) \<and>
                  (\<forall>g. cells (dict_mutate a2 g s2) a = f (cells s' a)))"
proof -
  define sel where "sel = (if 1 < num_gpus
                    then (if param_set = ''big'' then BIG_MULTI_GPU_PARAMS mp
                          else BASE_MULTI_GPU_PARAMS mp)
                    else (if param_set = ''tiny'' then TINY_PARAMS mp
                          else if param_set = ''base'' then BASE_PARAMS mp
                          else BIG_PARAMS mp))"
  from get_model_params_source [OF call] have
    every: "\<And>t::'a store. get_model_params mp param_set num_gpus t = Inr (dict_copy sel t)"
    unfolding sel_def by blast
  from alloc have lt: "sel < next_free s"
    by (auto simp: table_allocated_def sel_def)
  from call every [of s] have "(a, s') = dict_copy sel s"
    by simp
  then have res: "a = next_free s" "s' = snd (dict_copy sel s)"
    by (auto simp: dict_copy_def)
  have fresh: "a \<notin> {TINY_PARAMS mp, BASE_PARAMS mp, BIG_PARAMS mp,
                      BIG_MULTI_GPU_PARAMS mp, BASE_MULTI_GPU_PARAMS mp}"
    using alloc res(1) by (auto simp: table_allocated_def)
  have nxt: "next_free s' = Suc (next_free s)"
    using res by (simp add: dict_copy_def)
  have content: "cells s' a = cells s sel"
    using res by (simp add: dict_copy_def)
  have kept: "\<forall>b < next_free s. cells s' b = cells s b"
    using res by (simp add: dict_copy_def)
  have frame: "\<forall>b < next_free s. cells (dict_mutate a f s') b = cells s b"
    using res by (simp add: dict_mutate_def dict_copy_def)
  let ?t = "dict_mutate a f s'"
  have again: "get_model_params mp param_set num_gpus ?t = Inr (dict_copy sel ?t)"
    by (rule every)
  have indep: "fst (dict_copy sel ?t) \<noteq> a \<and>
               cells (snd (dict_copy sel ?t)) (fst (dict_copy sel ?t)) = cells s' a \<and>
               cells (snd (dict_copy sel ?t)) (fst (dict_copy sel ?t)) = cells s sel \<and>
               (\<forall>g. cells (dict_mutate (fst (dict_copy sel ?t)) g (snd (dict_copy sel ?t))) a
                     = f (cells s' a))"
    using res lt by (simp add: dict_mutate_def dict_copy_def)
  from again indep have second:
    "\<exists>a2 s2. get_model_params mp param_set num_gpus ?t = Inr (a2, s2) \<and>
             a2 \<noteq> a \<and> cells s2 a2 = cells s' a \<and> cells s2 a2 = cells s sel \<and>
             (\<forall>g. cells (dict_mutate a2 g s2) a = f (cells s' a))"
    by (metis prod.collapse)
  from fresh res(1) nxt content kept frame second show ?thesis
    unfolding sel_def by (intro conjI)
qed

theorem get_model_params_returns_copy_witness:
  "table_allocated example_params example_store \<and>
   get_model_params example_params ''big'' 1 example_store =
     Inr (5, snd (dict_copy 2 example_store)) \<and>
   cells (snd (dict_copy 2 example_store)) 5 = [''hidden_size'' \<mapsto> PyInt 1024] \<and>
   cells (dict_setitem 5 ''hidden_size'' (PyInt 7) (snd (dict_copy 2 example_store))) 2
     = [''hidden_size'' \<mapsto> PyInt 1024]"
proof -
  have alloc: "table_allocated example_params example_store"
    by (simp add: table_allocated_def example_params_def example_store_def)
  have call: "get_model_params example_params ''big'' 1 example_store =
                Inr (5, snd (dict_copy 2 example_store))"
    by (simp add: get_model_params_def PARAMS_MAP_def dict_copy_def
                  example_params_def example_store_def)
  have lt: "(2::nat) < next_free example_store"
    by (simp add: example_store_def)
  have stored: "cells example_store (BIG_PARAMS example_params) = [''hidden_size'' \<mapsto> PyInt 1024]"
       "cells example_store 2 = [''hidden_size'' \<mapsto> PyInt 1024]"
    by (simp_all add: example_params_def example_store_def)
  from get_model_params_returns_copy
         [OF alloc call, of "\<lambda>d. d(''hidden_size'' \<mapsto> PyInt 7)"]
  have "cells (snd (dict_copy 2 example_store)) 5 = cells example_store (BIG_PARAMS example_params)"
    and "\<forall>b < next_free example_store.
           cells (dict_mutate 5 (\<lambda>d. d(''hidden_size'' \<mapsto> PyInt 7))
                    (snd (dict_copy 2 example_store))) b = cells example_store b"
    by simp_all
  with lt stored alloc call show ?thesis
    by (simp add: dict_setitem_def)
qed

section \<open>Properties of the validators\<close>

lemma is_None_iff: "is_None v = (v = PyNone)"
  by (cases v) simp_all

lemma py_eq_PyStr: "py_eq v (PyStr t) = (v = PyStr t)"
  by (cases v) auto

text \<open>What each validator answers on an assignment that holds the flags it reads.\<close>

lemma verify_train_limits:
  assumes "fv ''mode'' = Some m" and "fv ''train_epochs'' = Some te"
  shows "verify train_limits_validator fv =
           (if m = PyStr ''train'' \<and> te = PyNone
            then Inl (ValidationError ''--train_epochs must be defined in train mode'')
            else Inr ())"
  using assms
  by (simp add: verify_def train_limits_validator_def check_train_limits_def getitem_def
                is_None_iff py_eq_PyStr)

lemma verify_bleu_files:
  assumes "fv ''bleu_source'' = Some src" and "fv ''bleu_ref'' = Some ref"
  shows "verify bleu_files_validator fv =
           (if (src = PyNone) = (ref = PyNone) then Inr ()
            else Inl (ValidationError
                        ''Both or neither --bleu_source and --bleu_ref must be defined.''))"
  using assms
  by (simp add: verify_def bleu_files_validator_def check_bleu_files_def getitem_def
                is_None_iff)

lemma verify_bleu_vocab_file:
  assumes "fv ''bleu_source'' = Some src" and "fv ''bleu_ref'' = Some ref"
      and "fv ''vocab_file'' = Some vf"
  shows "verify bleu_vocab_file_validator fv =
           (if truthy src \<and> truthy ref \<and> vf = PyNone
            then Inl (ValidationError
              ''--vocab_file must be defined if --bleu_source and --bleu_ref are defined.'')
            else Inr ())"
  using assms
  by (simp add: verify_def bleu_vocab_file_validator_def check_bleu_vocab_file_def getitem_def
                is_None_iff)

lemma verify_export_vocab_file:
  assumes "fv ''export_dir'' = Some ed" and "fv ''vocab_file'' = Some vf"
  shows "verify export_vocab_file_validator fv =
           (if truthy ed \<and> vf = PyNone
            then Inl (ValidationError ''--vocab_file must be defined if --export_dir is set.'')
            else Inr ())"
  using assms
  by (simp add: verify_def export_vocab_file_validator_def check_export_vocab_file_def
                getitem_def is_None_iff)

text \<open>
  Claim C4, as stated, asks for a positive epoch count in train mode. The checker only
  compares \<open>train_epochs\<close> with \<open>None\<close>: with \<open>mode = "train"\<close> and
  \<open>train_epochs = 0\<close> the validator accepts, although the count is not positive.
\<close>

theorem train_limits_zero_epochs_counterexample:
  "verify train_limits_validator (default_flag_values(''train_epochs'' \<mapsto> PyInt 0)) = Inr () \<and>
   (default_flag_values(''train_epochs'' \<mapsto> PyInt 0)) ''mode'' = Some (PyStr ''train'') \<and>
   (default_flag_values(''train_epochs'' \<mapsto> PyInt 0)) ''train_epochs'' = Some (PyInt 0) \<and>
   \<not> positive_count (PyInt 0)"
  by (simp add: verify_def train_limits_validator_def check_train_limits_def getitem_def
                default_flag_values_def positive_count_def)

text \<open>
  Claim C4, amended. On an assignment that holds \<open>mode\<close> and \<open>train_epochs\<close>, the
  train-mode validator accepts if and only if \<open>train_epochs\<close> is set (is not
  \<open>None\<close>) whenever \<open>mode\<close> equals \<open>"train"\<close>; for every other mode it accepts
  whatever \<open>train_epochs\<close> is; and train mode with \<open>train_epochs\<close> unset is
  rejected with the validator's message.
\<close>

theorem train_limits_validator_accepts:
  assumes "fv ''mode'' = Some m" and "fv ''train_epochs'' = Some te"
  shows "(verify train_limits_validator fv = Inr () \<longleftrightarrow> (m = PyStr ''train'' \<longrightarrow> is_set te)) \<and>
         (m \<noteq> PyStr ''train'' \<longrightarrow> verify train_limits_validator fv = Inr ()) \<and>
         (m = PyStr ''train'' \<and> \<not> is_set te \<longrightarrow>
            verify train_limits_validator fv =
              Inl (ValidationError ''--train_epochs must be defined in train mode''))"
  by (simp add: verify_train_limits [OF assms] is_set_def)

theorem train_limits_validator_accepts_witness:
  "default_flag_values ''mode'' = Some (PyStr ''train'') \<and>
   default_flag_values ''train_epochs'' = Some (PyInt 10) \<and>
   verify train_limits_validator default_flag_values = Inr () \<and>
   verify train_limits_validator (default_flag_values(''train_epochs'' \<mapsto> PyNone)) =
     Inl (ValidationError ''--train_epochs must be defined in train mode'') \<and>
   verify train_limits_validator
     (default_flag_values(''mode'' \<mapsto> PyStr ''eval'', ''train_epochs'' \<mapsto> PyNone)) = Inr ()"
  using train_limits_validator_accepts [of default_flag_values "PyStr ''train''" "PyInt 10"]
        train_limits_validator_accepts [of "default_flag_values(''train_epochs'' \<mapsto> PyNone)" "PyStr ''train''" PyNone]
        train_limits_validator_accepts [of "default_flag_values(''mode'' \<mapsto> PyStr ''eval'', ''train_epochs'' \<mapsto> PyNone)"
               "PyStr ''eval''" PyNone]
  by (simp add: default_flag_values_def is_set_def)

text \<open>
  Claim C5. On an assignment that holds \<open>bleu_source\<close> and \<open>bleu_ref\<close>, the
  BLEU-files validator accepts if and only if both are set or both are unset; when
  exactly one is set it raises \<open>ValidationError\<close> with its message.
\<close>

theorem bleu_files_validator_accepts:
  assumes "fv ''bleu_source'' = Some src" and "fv ''bleu_ref'' = Some ref"
  shows "(verify bleu_files_validator fv = Inr () \<longleftrightarrow>
            (is_set src \<and> is_set ref) \<or> (\<not> is_set src \<and> \<not> is_set ref)) \<and>
         (is_set src \<noteq> is_set ref \<longrightarrow>
            verify bleu_files_validator fv =
              Inl (ValidationError
                     ''Both or neither --bleu_source and --bleu_ref must be defined.''))"
  by (auto simp add: verify_bleu_files [OF assms] is_set_def)

theorem bleu_files_validator_accepts_witness:
  "verify bleu_files_validator default_flag_values = Inr () \<and>
   verify bleu_files_validator
     (default_flag_values(''bleu_source'' \<mapsto> PyStr ''src.txt'', ''bleu_ref'' \<mapsto> PyStr ''ref.txt''))
     = Inr () \<and>
   verify bleu_files_validator (default_flag_values(''bleu_source'' \<mapsto> PyStr ''src.txt'')) =
     Inl (ValidationError ''Both or neither --bleu_source and --bleu_ref must be defined.'')"
  using bleu_files_validator_accepts [of default_flag_values PyNone PyNone]
        bleu_files_validator_accepts [of "default_flag_values(''bleu_source'' \<mapsto> PyStr ''src.txt'',
                                    ''bleu_ref'' \<mapsto> PyStr ''ref.txt'')"
               "PyStr ''src.txt''" "PyStr ''ref.txt''"]
        bleu_files_validator_accepts [of "default_flag_values(''bleu_source'' \<mapsto> PyStr ''src.txt'')"
               "PyStr ''src.txt''" PyNone]
  by (simp add: default_flag_values_def is_set_def)

text \<open>
  Claim C6, as stated, asks for a vocabulary file whenever both BLEU paths are set. The
  checker tests the truth value of the two paths: when both are the empty string they
  are set, no vocabulary file is set, and the validator accepts.
\<close>

theorem bleu_vocab_file_empty_paths_counterexample:
  "verify bleu_vocab_file_validator
     (default_flag_values(''bleu_source'' \<mapsto> PyStr [], ''bleu_ref'' \<mapsto> PyStr [])) = Inr () \<and>
   is_set (PyStr []) \<and>
   (default_flag_values(''bleu_source'' \<mapsto> PyStr [], ''bleu_ref'' \<mapsto> PyStr []))
     ''vocab_file'' = Some PyNone \<and>
   \<not> is_set PyNone"
  by (simp add: verify_def bleu_vocab_file_validator_def check_bleu_vocab_file_def getitem_def
                default_flag_values_def is_set_def)

text \<open>
  Claim C6, amended. On an assignment that holds the three flags, the BLEU-vocab
  validator accepts if and only if \<open>vocab_file\<close> is set (is not \<open>None\<close>) whenever
  \<open>bleu_source\<close> and \<open>bleu_ref\<close> are both true values (non-empty strings); when
  either path is unset or empty it accepts whatever \<open>vocab_file\<close> is.
\<close>

theorem bleu_vocab_file_validator_accepts:
  assumes "fv ''bleu_source'' = Some src" and "fv ''bleu_ref'' = Some ref"
      and "fv ''vocab_file'' = Some vf"
  shows "(verify bleu_vocab_file_validator fv = Inr () \<longleftrightarrow>
            (truthy src \<and> truthy ref \<longrightarrow> is_set vf)) \<and>
         (\<not> truthy src \<or> \<not> truthy ref \<longrightarrow> verify bleu_vocab_file_validator fv = Inr ()) \<and>
         (\<not> is_set src \<or> \<not> is_set ref \<longrightarrow> verify bleu_vocab_file_validator fv = Inr ()) \<and>
         (truthy src \<and> truthy ref \<and> \<not> is_set vf \<longrightarrow>
            verify bleu_vocab_file_validator fv =
              Inl (ValidationError
                ''--vocab_file must be defined if --bleu_source and --bleu_ref are defined.''))"
  by (auto simp add: verify_bleu_vocab_file [OF assms] is_set_def)

theorem bleu_vocab_file_validator_accepts_witness:
  "verify bleu_vocab_file_validator
     (default_flag_values(''bleu_source'' \<mapsto> PyStr ''src.txt'', ''bleu_ref'' \<mapsto> PyStr ''ref.txt''))
     = Inl (ValidationError
        ''--vocab_file must be defined if --bleu_source and --bleu_ref are defined.'') \<and>
   verify bleu_vocab_file_validator
     (default_flag_values(''bleu_source'' \<mapsto> PyStr ''src.txt'', ''bleu_ref'' \<mapsto> PyStr ''ref.txt'',
                          ''vocab_file'' \<mapsto> PyStr ''vocab.txt'')) = Inr () \<and>
   verify bleu_vocab_file_validator (default_flag_values(''bleu_source'' \<mapsto> PyStr ''src.txt''))
     = Inr ()"
  using bleu_vocab_file_validator_accepts [of "default_flag_values(''bleu_source'' \<mapsto> PyStr ''src.txt'',
                                    ''bleu_ref'' \<mapsto> PyStr ''ref.txt'')"
               "PyStr ''src.txt''" "PyStr ''ref.txt''" PyNone]
        bleu_vocab_file_validator_accepts [of "default_flag_values(''bleu_source'' \<mapsto> PyStr ''src.txt'',
                                    ''bleu_ref'' \<mapsto> PyStr ''ref.txt'',
                                    ''vocab_file'' \<mapsto> PyStr ''vocab.txt'')"
               "PyStr ''src.txt''" "PyStr ''ref.txt''" "PyStr ''vocab.txt''"]
        bleu_vocab_file_validator_accepts [of "default_flag_values(''bleu_source'' \<mapsto> PyStr ''src.txt'')"
               "PyStr ''src.txt''" PyNone PyNone]
  by (simp add: default_flag_values_def is_set_def)

text \<open>
  Claim C7, as stated, asks for a vocabulary file whenever \<open>export_dir\<close> is set. The
  checker tests the truth value of \<open>export_dir\<close>: when it is the empty string it is
  set, no vocabulary file is set, and the validator accepts.
\<close>

theorem export_vocab_file_empty_dir_counterexample:
  "verify export_vocab_file_validator (default_flag_values(''export_dir'' \<mapsto> PyStr [])) = Inr () \<and>
   is_set (PyStr []) \<and>
   (default_flag_values(''export_dir'' \<mapsto> PyStr [])) ''vocab_file'' = Some PyNone \<and>
   \<not> is_set PyNone"
  by (simp add: verify_def export_vocab_file_validator_def check_export_vocab_file_def
                getitem_def default_flag_values_def is_set_def)

text \<open>
  Claim C7, amended. On an assignment that holds \<open>export_dir\<close> and \<open>vocab_file\<close>,
  the export-vocab validator accepts if and only if \<open>vocab_file\<close> is set (is not
  \<open>None\<close>) whenever \<open>export_dir\<close> is a true value (a non-empty string); when
  \<open>export_dir\<close> is unset or empty it accepts whatever \<open>vocab_file\<close> is.
\<close>

theorem export_vocab_file_validator_accepts:
  assumes "fv ''export_dir'' = Some ed" and "fv ''vocab_file'' = Some vf"
  shows "(verify export_vocab_file_validator fv = Inr () \<longleftrightarrow> (truthy ed \<longrightarrow> is_set vf)) \<and>
         (\<not> truthy ed \<longrightarrow> verify export_vocab_file_validator fv = Inr ()) \<and>
         (\<not> is_set ed \<longrightarrow> verify export_vocab_file_validator fv = Inr ()) \<and>
         (truthy ed \<and> \<not> is_set vf \<longrightarrow>
            verify export_vocab_file_validator fv =
              Inl (ValidationError ''--vocab_file must be defined if --export_dir is set.''))"
  by (auto simp add: verify_export_vocab_file [OF assms] is_set_def)

theorem export_vocab_file_validator_accepts_witness:
  "verify export_vocab_file_validator (default_flag_values(''export_dir'' \<mapsto> PyStr ''/tmp/out''))
     = Inl (ValidationError ''--vocab_file must be defined if --export_dir is set.'') \<and>
   verify export_vocab_file_validator
     (default_flag_values(''export_dir'' \<mapsto> PyStr ''/tmp/out'',
                          ''vocab_file'' \<mapsto> PyStr ''vocab.txt'')) = Inr () \<and>
   verify export_vocab_file_validator default_flag_values = Inr ()"
  using export_vocab_file_validator_accepts [of "default_flag_values(''export_dir'' \<mapsto> PyStr ''/tmp/out'')"
               "PyStr ''/tmp/out''" PyNone]
        export_vocab_file_validator_accepts [of "default_flag_values(''export_dir'' \<mapsto> PyStr ''/tmp/out'',
                                    ''vocab_file'' \<mapsto> PyStr ''vocab.txt'')"
               "PyStr ''/tmp/out''" "PyStr ''vocab.txt''"]
        export_vocab_file_validator_accepts [of default_flag_values PyNone PyNone]
  by (simp add: default_flag_values_def is_set_def)



section \<open>Properties of \<open>define_transformer_flags\<close>\<close>

lemma registered_names_Nil: "set (registered_names []) = {}"
  by (simp add: registered_names_def List.map_filter_def)

lemma registered_names_Cons:
  "set (registered_names (f # r)) =
     insert (name f) (set_option (short_name f) \<union> set (registered_names r))"
  by (cases "short_name f") (auto simp: registered_names_def List.map_filter_def)

lemma registered_names_append:
  "set (registered_names (xs @ ys)) = set (registered_names xs) \<union> set (registered_names ys)"
  by (auto simp: registered_names_def List.map_filter_def)

lemma lookup_flag_fresh:
  "n \<notin> set (registered_names r) \<Longrightarrow> lookup_flag n r = None"
  by (auto simp: lookup_flag_def registered_names_def find_None_iff)

lemma lookup_flag_name: "lookup_flag n r = Some f \<Longrightarrow> name f = n"
  by (auto simp: lookup_flag_def find_Some_iff)

lemma lookup_flag_append:
  "lookup_flag n (xs @ ys) =
     (case lookup_flag n xs of None \<Rightarrow> lookup_flag n ys | Some f \<Rightarrow> Some f)"
  by (induction xs) (simp_all add: lookup_flag_def)

lemma lookup_flag_set_default:
  "lookup_flag n (set_default k v r) =
     map_option (\<lambda>f. if name f = k then f\<lparr>default_value := v\<rparr> else f) (lookup_flag n r)"
  by (induction r) (auto simp: lookup_flag_def set_default_def)

lemma map_name_set_default: "map name (set_default k v r) = map name r"
  by (induction r) (auto simp: set_default_def)

lemma map_name_set_defaults: "map name (set_defaults kvs r) = map name r"
  by (induction kvs arbitrary: r) (auto simp: map_name_set_default)

lemma lookup_flag_set_defaults_other:
  "n \<notin> fst ` set kvs \<Longrightarrow> lookup_flag n (set_defaults kvs r) = lookup_flag n r"
proof (induction kvs arbitrary: r)
  case Nil
  show ?case by simp
next
  case (Cons kv kvs)
  obtain k v where kv: "kv = (k, v)" by (cases kv)
  with Cons.prems have "k \<noteq> n" and rest: "n \<notin> fst ` set kvs" by auto
  then have "lookup_flag n (set_default k v r) = lookup_flag n r"
    by (cases "lookup_flag n r") (auto simp: lookup_flag_set_default dest: lookup_flag_name)
  with Cons.IH [OF rest] kv show ?case by simp
qed

lemma lookup_flag_declared:
  assumes "n \<notin> set (registered_names core)" and "n \<notin> fst ` set kvs"
  shows "lookup_flag n (set_defaults kvs (core @ new)) = lookup_flag n new"
  using assms
  by (simp add: lookup_flag_set_defaults_other lookup_flag_append lookup_flag_fresh)

lemma define_transformer_flags_fresh:
  assumes "set (registered_names core) \<inter> set transformer_flag_names = {}"
  shows "define_transformer_flags mp core =
       Inr (set_defaults
              [(''data_dir'', PyStr ''/tmp/translate_ende''),
               (''model_dir'', PyStr ''/tmp/transformer_model''),
               (''batch_size'', PyNone),
               (''train_epochs'', PyInt 10)]
         (core @
         [\<lparr>name = ''param_set'', short_name = Some ''mp'',
            kind = EnumFlag [''tiny'', ''base'', ''big''], default_value = PyStr ''big''\<rparr>,
          \<lparr>name = ''static_batch'', short_name = None, kind = BoolFlag,
            default_value = PyBool False\<rparr>,
          \<lparr>name = ''steps_per_epoch'', short_name = Some ''sbe'', kind = IntegerFlag,
            default_value = PyInt 1000\<rparr>,
          \<lparr>name = ''init_epoch'', short_name = Some ''is'', kind = IntegerFlag,
            default_value = PyInt 0\<rparr>,
          \<lparr>name = ''init_weight_path'', short_name = Some ''iwp'', kind = StringFlag,
            default_value = PyNone\<rparr>,
          \<lparr>name = ''init_logdir_timestamp'', short_name = Some ''ilt'', kind = StringFlag,
            default_value = PyNone\<rparr>,
          \<lparr>name = ''validation_steps'', short_name = Some ''vs'', kind = IntegerFlag,
            default_value = PyInt 64\<rparr>,
          \<lparr>name = ''bleu_source'', short_name = Some ''bls'', kind = StringFlag,
            default_value = PyNone\<rparr>,
          \<lparr>name = ''bleu_ref'', short_name = Some ''blr'', kind = StringFlag,
            default_value = PyNone\<rparr>,
          \<lparr>name = ''vocab_file'', short_name = Some ''vf'', kind = StringFlag,
            default_value = PyNone\<rparr>,
          \<lparr>name = ''mode'', short_name = None, kind = StringFlag,
            default_value = PyStr ''train''\<rparr>]))"
proof -
  from assms have
    "declare_all
        [DEFINE_enum ''param_set'' (Some ''mp'') ''big'' (map fst (PARAMS_MAP mp)),
         DEFINE_bool ''static_batch'' False,
         DEFINE_integer ''steps_per_epoch'' (Some ''sbe'') 1000,
         DEFINE_integer ''init_epoch'' (Some ''is'') 0,
         DEFINE_string ''init_weight_path'' (Some ''iwp'') None,
         DEFINE_string ''init_logdir_timestamp'' (Some ''ilt'') None,
         DEFINE_integer ''validation_steps'' (Some ''vs'') 64,
         DEFINE_string ''bleu_source'' (Some ''bls'') None,
         DEFINE_string ''bleu_ref'' (Some ''blr'') None,
         DEFINE_string ''vocab_file'' (Some ''vf'') None,
         DEFINE_string ''mode'' None (Some ''train'')] core =
       Inr (core @
         [\<lparr>name = ''param_set'', short_name = Some ''mp'',
            kind = EnumFlag [''tiny'', ''base'', ''big''], default_value = PyStr ''big''\<rparr>,
          \<lparr>name = ''static_batch'', short_name = None, kind = BoolFlag,
            default_value = PyBool False\<rparr>,
          \<lparr>name = ''steps_per_epoch'', short_name = Some ''sbe'', kind = IntegerFlag,
            default_value = PyInt 1000\<rparr>,
          \<lparr>name = ''init_epoch'', short_name = Some ''is'', kind = IntegerFlag,
            default_value = PyInt 0\<rparr>,
          \<lparr>name = ''init_weight_path'', short_name = Some ''iwp'', kind = StringFlag,
            default_value = PyNone\<rparr>,
          \<lparr>name = ''init_logdir_timestamp'', short_name = Some ''ilt'', kind = StringFlag,
            default_value = PyNone\<rparr>,
          \<lparr>name = ''validation_steps'', short_name = Some ''vs'', kind = IntegerFlag,
            default_value = PyInt 64\<rparr>,
          \<lparr>name = ''bleu_source'', short_name = Some ''bls'', kind = StringFlag,
            default_value = PyNone\<rparr>,
          \<lparr>name = ''bleu_ref'', short_name = Some ''blr'', kind = StringFlag,
            default_value = PyNone\<rparr>,
          \<lparr>name = ''vocab_file'', short_name = Some ''vf'', kind = StringFlag,
            default_value = PyNone\<rparr>,
          \<lparr>name = ''mode'', short_name = None, kind = StringFlag,
            default_value = PyStr ''train''\<rparr>])"
    by (simp add: transformer_flag_names_def DEFINE_enum_def DEFINE_bool_def DEFINE_integer_def
          DEFINE_string_def DEFINE_flag_def PARAMS_MAP_def registered_names_append
          registered_names_Cons registered_names_Nil)
  then show ?thesis
    unfolding define_transformer_flags_def by simp
qed

lemma example_core_fresh:
  "set (registered_names example_core) \<inter> set transformer_flag_names = {}"
  by (simp add: example_core_def transformer_flag_names_def registered_names_Cons
                registered_names_Nil)

text \<open>
  Claim C8. On a registry that holds none of the names and short names it declares,
  \<open>define_transformer_flags\<close> succeeds. It adds exactly eleven flags, each with the
  short name, kind and default of the interface table: \<open>param_set\<close> (\<open>mp\<close>) is an
  enumeration of \<open>tiny\<close>, \<open>base\<close>, \<open>big\<close> with default \<open>"big"\<close>, \<open>static_batch\<close>
  defaults to false, \<open>steps_per_epoch\<close> (\<open>sbe\<close>) to 1000, \<open>init_epoch\<close> (\<open>is\<close>) to
  0, \<open>validation_steps\<close> (\<open>vs\<close>) to 64, \<open>mode\<close> to \<open>"train"\<close>, and the five other
  string flags to \<open>None\<close>. The shared flags \<open>batch_size\<close> and \<open>train_epochs\<close> keep
  everything but their default, which becomes \<open>None\<close> and 10.
\<close>

theorem define_transformer_flags_defaults:
  assumes fresh: "set (registered_names core) \<inter> set transformer_flag_names = {}"
  shows "\<exists>r. define_transformer_flags mp core = Inr r \<and>
     map name r = map name core @
       [''param_set'', ''static_batch'', ''steps_per_epoch'', ''init_epoch'', ''init_weight_path'',
        ''init_logdir_timestamp'', ''validation_steps'', ''bleu_source'', ''bleu_ref'',
        ''vocab_file'', ''mode''] \<and>
     lookup_flag ''param_set'' r =
       Some \<lparr>name = ''param_set'', short_name = Some ''mp'',
             kind = EnumFlag [''tiny'', ''base'', ''big''], default_value = PyStr ''big''\<rparr> \<and>
     lookup_flag ''static_batch'' r =
       Some \<lparr>name = ''static_batch'', short_name = None, kind = BoolFlag,
             default_value = PyBool False\<rparr> \<and>
     lookup_flag ''steps_per_epoch'' r =
       Some \<lparr>name = ''steps_per_epoch'', short_name = Some ''sbe'', kind = IntegerFlag,
             default_value = PyInt 1000\<rparr> \<and>
     lookup_flag ''init_epoch'' r =
       Some \<lparr>name = ''init_epoch'', short_name = Some ''is'', kind = IntegerFlag,
             default_value = PyInt 0\<rparr> \<and>
     lookup_flag ''init_weight_path'' r =
       Some \<lparr>name = ''init_weight_path'', short_name = Some ''iwp'', kind = StringFlag,
             default_value = PyNone\<rparr> \<and>
     lookup_flag ''init_logdir_timestamp'' r =
       Some \<lparr>name = ''init_logdir_timestamp'', short_name = Some ''ilt'', kind = StringFlag,
             default_value = PyNone\<rparr> \<and>
     lookup_flag ''validation_steps'' r =
       Some \<lparr>name = ''validation_steps'', short_name = Some ''vs'', kind = IntegerFlag,
             default_value = PyInt 64\<rparr> \<and>
     lookup_flag ''bleu_source'' r =
       Some \<lparr>name = ''bleu_source'', short_name = Some ''bls'', kind = StringFlag,
             default_value = PyNone\<rparr> \<and>
     lookup_flag ''bleu_ref'' r =
       Some \<lparr>name = ''bleu_ref'', short_name = Some ''blr'', kind = StringFlag,
             default_value = PyNone\<rparr> \<and>
     lookup_flag ''vocab_file'' r =
       Some \<lparr>name = ''vocab_file'', short_name = Some ''vf'', kind = StringFlag,
             default_value = PyNone\<rparr> \<and>
     lookup_flag ''mode'' r =
       Some \<lparr>name = ''mode'', short_name = None, kind = StringFlag,
             default_value = PyStr ''train''\<rparr> \<and>
     (\<forall>f. lookup_flag ''batch_size'' core = Some f \<longrightarrow>
          lookup_flag ''batch_size'' r = Some (f\<lparr>default_value := PyNone\<rparr>)) \<and>
     (\<forall>f. lookup_flag ''train_epochs'' core = Some f \<longrightarrow>
          lookup_flag ''train_epochs'' r = Some (f\<lparr>default_value := PyInt 10\<rparr>))"
proof -
  define new where "new =
    [\<lparr>name = ''param_set'', short_name = Some ''mp'',
       kind = EnumFlag [''tiny'', ''base'', ''big''], default_value = PyStr ''big''\<rparr>,
     \<lparr>name = ''static_batch'', short_name = None, kind = BoolFlag,
       default_value = PyBool False\<rparr>,
     \<lparr>name = ''steps_per_epoch'', short_name = Some ''sbe'', kind = IntegerFlag,
       default_value = PyInt 1000\<rparr>,
     \<lparr>name = ''init_epoch'', short_name = Some ''is'', kind = IntegerFlag,
       default_value = PyInt 0\<rparr>,
     \<lparr>name = ''init_weight_path'', short_name = Some ''iwp'', kind = StringFlag,
       default_value = PyNone\<rparr>,
     \<lparr>name = ''init_logdir_timestamp'', short_name = Some ''ilt'', kind = StringFlag,
       default_value = PyNone\<rparr>,
     \<lparr>name = ''validation_steps'', short_name = Some ''vs'', kind = IntegerFlag,
       default_value = PyInt 64\<rparr>,
     \<lparr>name = ''bleu_source'', short_name = Some ''bls'', kind = StringFlag,
       default_value = PyNone\<rparr>,
     \<lparr>name = ''bleu_ref'', short_name = Some ''blr'', kind = StringFlag,
       default_value = PyNone\<rparr>,
     \<lparr>name = ''vocab_file'', short_name = Some ''vf'', kind = StringFlag,
       default_value = PyNone\<rparr>,
     \<lparr>name = ''mode'', short_name = None, kind = StringFlag,
       default_value = PyStr ''train''\<rparr>]"
  define kvs where "kvs =
    [(''data_dir'', PyStr ''/tmp/translate_ende''),
     (''model_dir'', PyStr ''/tmp/transformer_model''),
     (''batch_size'', PyNone), (''train_epochs'', PyInt 10)]"
  define r where "r = set_defaults kvs (core @ new)"
  have decl: "define_transformer_flags mp core = Inr r"
    unfolding define_transformer_flags_fresh [OF fresh] r_def kvs_def new_def
    by simp
  have names: "map name r = map name core @
       [''param_set'', ''static_batch'', ''steps_per_epoch'', ''init_epoch'', ''init_weight_path'',
        ''init_logdir_timestamp'', ''validation_steps'', ''bleu_source'', ''bleu_ref'',
        ''vocab_file'', ''mode'']"
    by (simp add: r_def map_name_set_defaults new_def)
  have look: "lookup_flag n r = lookup_flag n new"
    if "n \<in> set transformer_flag_names" and "n \<notin> fst ` set kvs" for n
  proof -
    from that(1) fresh have "lookup_flag n core = None"
      by (intro lookup_flag_fresh) blast
    with that(2) show ?thesis
      by (simp add: r_def lookup_flag_set_defaults_other lookup_flag_append)
  qed
  have p1: "lookup_flag ''param_set'' r =
       Some \<lparr>name = ''param_set'', short_name = Some ''mp'',
             kind = EnumFlag [''tiny'', ''base'', ''big''], default_value = PyStr ''big''\<rparr>"
    by (subst look) (simp_all add: transformer_flag_names_def kvs_def new_def lookup_flag_def)
  have p2: "lookup_flag ''static_batch'' r =
       Some \<lparr>name = ''static_batch'', short_name = None, kind = BoolFlag,
             default_value = PyBool False\<rparr>"
    by (subst look) (simp_all add: transformer_flag_names_def kvs_def new_def lookup_flag_def)
  have p3: "lookup_flag ''steps_per_epoch'' r =
       Some \<lparr>name = ''steps_per_epoch'', short_name = Some ''sbe'', kind = IntegerFlag,
             default_value = PyInt 1000\<rparr>"
    by (subst look) (simp_all add: transformer_flag_names_def kvs_def new_def lookup_flag_def)
  have p4: "lookup_flag ''init_epoch'' r =
       Some \<lparr>name = ''init_epoch'', short_name = Some ''is'', kind = IntegerFlag,
             default_value = PyInt 0\<rparr>"
    by (subst look) (simp_all add: transformer_flag_names_def kvs_def new_def lookup_flag_def)
  have p5: "lookup_flag ''init_weight_path'' r =
       Some \<lparr>name = ''init_weight_path'', short_name = Some ''iwp'', kind = StringFlag,
             default_value = PyNone\<rparr>"
    by (subst look) (simp_all add: transformer_flag_names_def kvs_def new_def lookup_flag_def)
  have p6: "lookup_flag ''init_logdir_timestamp'' r =
       Some \<lparr>name = ''init_logdir_timestamp'', short_name = Some ''ilt'', kind = StringFlag,
             default_value = PyNone\<rparr>"
    by (subst look) (simp_all add: transformer_flag_names_def kvs_def new_def lookup_flag_def)
  have p7: "lookup_flag ''validation_steps'' r =
       Some \<lparr>name = ''validation_steps'', short_name = Some ''vs'', kind = IntegerFlag,
             default_value = PyInt 64\<rparr>"
    by (subst look) (simp_all add: transformer_flag_names_def kvs_def new_def lookup_flag_def)
  have p8: "lookup_flag ''bleu_source'' r =
       Some \<lparr>name = ''bleu_source'', short_name = Some ''bls'', kind = StringFlag,
             default_value = PyNone\<rparr>"
    by (subst look) (simp_all add: transformer_flag_names_def kvs_def new_def lookup_flag_def)
  have p9: "lookup_flag ''bleu_ref'' r =
       Some \<lparr>name = ''bleu_ref'', short_name = Some ''blr'', kind = StringFlag,
             default_value = PyNone\<rparr>"
    by (subst look) (simp_all add: transformer_flag_names_def kvs_def new_def lookup_flag_def)
  have p10: "lookup_flag ''vocab_file'' r =
       Some \<lparr>name = ''vocab_file'', short_name = Some ''vf'', kind = StringFlag,
             default_value = PyNone\<rparr>"
    by (subst look) (simp_all add: transformer_flag_names_def kvs_def new_def lookup_flag_def)
  have p11: "lookup_flag ''mode'' r =
       Some \<lparr>name = ''mode'', short_name = None, kind = StringFlag,
             default_value = PyStr ''train''\<rparr>"
    by (subst look) (simp_all add: transformer_flag_names_def kvs_def new_def lookup_flag_def)
  have b1: "\<forall>f. lookup_flag ''batch_size'' core = Some f \<longrightarrow>
          lookup_flag ''batch_size'' r = Some (f\<lparr>default_value := PyNone\<rparr>)"
    by (auto simp: r_def kvs_def lookup_flag_set_default lookup_flag_append
             dest: lookup_flag_name)
  have b2: "\<forall>f. lookup_flag ''train_epochs'' core = Some f \<longrightarrow>
          lookup_flag ''train_epochs'' r = Some (f\<lparr>default_value := PyInt 10\<rparr>)"
    by (auto simp: r_def kvs_def lookup_flag_set_default lookup_flag_append
             dest: lookup_flag_name)
  show ?thesis
    by (intro exI [of _ r] conjI decl names p1 p2 p3 p4 p5 p6 p7 p8 p9 p10 p11 b1 b2)
qed

theorem define_transformer_flags_defaults_witness:
  "set (registered_names example_core) \<inter> set transformer_flag_names = {} \<and>
   (\<exists>r. define_transformer_flags example_params example_core = Inr r \<and>
      lookup_flag ''param_set'' r =
        Some \<lparr>name = ''param_set'', short_name = Some ''mp'',
              kind = EnumFlag [''tiny'', ''base'', ''big''], default_value = PyStr ''big''\<rparr> \<and>
      lookup_flag ''batch_size'' r =
        Some \<lparr>name = ''batch_size'', short_name = Some ''bs'', kind = IntegerFlag,
              default_value = PyNone\<rparr> \<and>
      lookup_flag ''train_epochs'' r =
        Some \<lparr>name = ''train_epochs'', short_name = Some ''te'', kind = IntegerFlag,
              default_value = PyInt 10\<rparr>)"
proof -
  have bs: "lookup_flag ''batch_size'' example_core =
      Some \<lparr>name = ''batch_size'', short_name = Some ''bs'', kind = IntegerFlag,
            default_value = PyInt 32\<rparr>"
    by (simp add: lookup_flag_def example_core_def)
  have te: "lookup_flag ''train_epochs'' example_core =
      Some \<lparr>name = ''train_epochs'', short_name = Some ''te'', kind = IntegerFlag,
            default_value = PyInt 1\<rparr>"
    by (simp add: lookup_flag_def example_core_def)
  from define_transformer_flags_defaults [OF example_core_fresh, of example_params]
  obtain r where
    "define_transformer_flags example_params example_core = Inr r"
    "lookup_flag ''param_set'' r =
        Some \<lparr>name = ''param_set'', short_name = Some ''mp'',
              kind = EnumFlag [''tiny'', ''base'', ''big''], default_value = PyStr ''big''\<rparr>"
    "\<forall>f. lookup_flag ''batch_size'' example_core = Some f \<longrightarrow>
          lookup_flag ''batch_size'' r = Some (f\<lparr>default_value := PyNone\<rparr>)"
    "\<forall>f. lookup_flag ''train_epochs'' example_core = Some f \<longrightarrow>
          lookup_flag ''train_epochs'' r = Some (f\<lparr>default_value := PyInt 10\<rparr>)"
    by blast
  with bs te example_core_fresh show ?thesis
    by (intro conjI exI [of _ r]) simp_all
qed

text \<open>
  Claim C10. \<open>mode\<close> is declared as a string flag, not as an enumeration: after
  \<open>define_transformer_flags\<close>, parsing any argument \<open>m\<close> other than \<open>"train"\<close> for it
  succeeds with the value \<open>m\<close>, and the train-mode validator accepts every assignment
  with that mode and \<open>train_epochs\<close> unset.
\<close>

theorem mode_flag_unrestricted:
  assumes fresh: "set (registered_names core) \<inter> set transformer_flag_names = {}"
      and other: "m \<noteq> ''train''"
  shows "\<exists>r f. define_transformer_flags mp core = Inr r \<and>
           lookup_flag ''mode'' r = Some f \<and> kind f = StringFlag \<and>
           parse_flag int_of bool_of (kind f) m = Inr (PyStr m) \<and>
           (\<forall>fv. fv ''mode'' = Some (PyStr m) \<and> fv ''train_epochs'' = Some PyNone \<longrightarrow>
                 verify train_limits_validator fv = Inr ())"
proof -
  let ?mode = "\<lparr>name = ''mode'', short_name = None, kind = StringFlag,
                 default_value = PyStr ''train''\<rparr>"
  from fresh have "''mode'' \<notin> set (registered_names core)"
    by (auto simp: transformer_flag_names_def)
  then have look: "\<exists>r. define_transformer_flags mp core = Inr r \<and>
                      lookup_flag ''mode'' r = Some ?mode"
    unfolding define_transformer_flags_fresh [OF fresh]
    by (simp del: set_defaults.simps add: lookup_flag_declared) (simp add: lookup_flag_def)
  have parse: "parse_flag int_of bool_of (kind ?mode) m = Inr (PyStr m)"
    by (simp add: parse_flag_def)
  have accept: "\<forall>fv. fv ''mode'' = Some (PyStr m) \<and> fv ''train_epochs'' = Some PyNone \<longrightarrow>
                  verify train_limits_validator fv = Inr ()"
    using other by (auto simp: verify_train_limits)
  from look parse accept show ?thesis
    by (metis flag.select_convs(3))
qed

theorem mode_flag_unrestricted_witness:
  "set (registered_names example_core) \<inter> set transformer_flag_names = {} \<and>
   ''bogus'' \<noteq> ''train'' \<and>
   (\<exists>r f. define_transformer_flags example_params example_core = Inr r \<and>
      lookup_flag ''mode'' r = Some f \<and>
      parse_flag (\<lambda>_. None) (\<lambda>_. None) (kind f) ''bogus'' = Inr (PyStr ''bogus'')) \<and>
   verify train_limits_validator
     (default_flag_values(''mode'' \<mapsto> PyStr ''bogus'', ''train_epochs'' \<mapsto> PyNone)) = Inr ()"
proof -
  have ne: "''bogus'' \<noteq> ''train''" by simp
  have vals:
    "(default_flag_values(''mode'' \<mapsto> PyStr ''bogus'', ''train_epochs'' \<mapsto> PyNone)) ''mode''
       = Some (PyStr ''bogus'') \<and>
     (default_flag_values(''mode'' \<mapsto> PyStr ''bogus'', ''train_epochs'' \<mapsto> PyNone))
       ''train_epochs'' = Some PyNone"
    by simp
  from mode_flag_unrestricted [OF example_core_fresh ne, of example_params "\<lambda>_. None" "\<lambda>_. None"]
       example_core_fresh ne vals
  show ?thesis
    by fast
qed

end
